theory Spec2Isabelle
  imports Main "HOL-Library.Signed_Division" "HOL-Library.Sublist"
begin

section \<open>The ACME client of the domain server (DomainServerAcmeClient.cpp)\<close>

text \<open>
  A shallow embedding of \<^verbatim>\<open>domain-server/src/DomainServerAcmeClient.cpp\<close>. Every
  function of the source is a HOL function of the same name on an explicit state.
  What the source takes from outside (the Qt file API, the clock, the settings
  manager, the acme\_lw library, the X.509 parser) is a field of a parameter
  record, so that every theorem holds for each behaviour of these collaborators.
\<close>

subsection \<open>Files (QFile)\<close>

type_synonym path = string

datatype permission =
  ReadOwner | WriteOwner | ExeOwner
| ReadGroup | WriteGroup | ExeGroup
| ReadOther | WriteOther | ExeOther

record qfile =
  bytes :: string
  permissions :: "permission set"

text \<open>
  The files, by the canonical path of each: two paths name one file exactly when
  their canonical paths agree (\<open>canonical\<close> below).
\<close>

type_synonym files = "path \<rightharpoonup> qfile"

text \<open>
  The answers of the platform to the file operations the source issues. The source
  tests each of them, so each is free here:
  \<^item> \<open>canonical p\<close>: the file the path \<open>p\<close> names. Different strings may name one
    file: \<^verbatim>\<open>QDir::filePath\<close> does not clean the name it is given, so \<^verbatim>\<open>tls.pem\<close> and
    \<^verbatim>\<open>./tls.pem\<close> in one directory are one file, as are a link and its target;
  \<^item> \<open>openWritable p\<close>: \<^verbatim>\<open>QFile(p).open(QFile::WriteOnly)\<close> succeeds;
  \<^item> \<open>openReadable p\<close>: \<^verbatim>\<open>open(QFile::ReadOnly)\<close> succeeds on an existing file;
  \<^item> \<open>capacity p\<close>: \<open>Some n\<close> when \<^verbatim>\<open>write\<close> stores at most \<open>n\<close> bytes at
    \<open>p\<close>, \<open>None\<close> when it stores all of them;
  \<^item> \<open>removable p\<close>: \<^verbatim>\<open>QFile(p).remove()\<close> succeeds on an existing file;
  \<^item> \<open>mkpathOk d\<close>: \<^verbatim>\<open>QDir(d).mkpath(".")\<close> succeeds;
  \<^item> \<open>defaultPermissions\<close>: the permissions of a file that \<^verbatim>\<open>open\<close> creates
    (the creation mode less the umask of the process);
  \<^item> \<open>filePath d n\<close>: \<^verbatim>\<open>QDir(d).filePath(n)\<close>; \<open>parentPath p\<close>:
    \<^verbatim>\<open>QFileInfo(p).path()\<close>; \<open>appLocalDataPath\<close>:
    \<^verbatim>\<open>PathUtils::getAppLocalDataPath()\<close>;
  \<^item> \<open>urlOf s\<close>: the \<^verbatim>\<open>QUrl\<close> that Qt makes of the string \<open>s\<close>, a URL being
    held in the form in which \<^verbatim>\<open>QUrl::operator==\<close> compares it; \<open>urlString u\<close>:
    \<^verbatim>\<open>u.toString().toStdString()\<close>;
  \<^item> \<open>toAce d\<close>: \<^verbatim>\<open>QUrl::toAce(d)\<close>.
\<close>

type_synonym QUrl = string

record platform =
  canonical :: "path \<Rightarrow> path"
  openWritable :: "path \<Rightarrow> bool"
  openReadable :: "path \<Rightarrow> bool"
  capacity :: "path \<Rightarrow> nat option"
  removable :: "path \<Rightarrow> bool"
  mkpathOk :: "path \<Rightarrow> bool"
  defaultPermissions :: "permission set"
  filePath :: "path \<Rightarrow> string \<Rightarrow> path"
  parentPath :: "path \<Rightarrow> path"
  appLocalDataPath :: path
  urlOf :: "string \<Rightarrow> QUrl"
  urlString :: "QUrl \<Rightarrow> string"
  toAce :: "string \<Rightarrow> string"

definition file_exists :: "'a platform_scheme \<Rightarrow> files \<Rightarrow> path \<Rightarrow> bool" where
  \<comment> \<open>\<^verbatim>\<open>QFile::exists(path)\<close>\<close>
  "file_exists pf fs p = (fs (canonical pf p) \<noteq> None)"

definition open_WriteOnly :: "'a platform_scheme \<Rightarrow> path \<Rightarrow> files \<Rightarrow> files option" where
  \<comment> \<open>\<^verbatim>\<open>open(QFile::WriteOnly)\<close> truncates; it creates the file when there is none,
      and leaves the permissions of an existing file as they are.\<close>
  "open_WriteOnly pf p fs =
     (if openWritable pf p
      then Some (fs(canonical pf p \<mapsto>
                      \<lparr>bytes = [],
                       permissions = (case fs (canonical pf p) of
                                        Some f \<Rightarrow> permissions f
                                      | None \<Rightarrow> defaultPermissions pf)\<rparr>))
      else None)"

definition stored :: "'a platform_scheme \<Rightarrow> path \<Rightarrow> string \<Rightarrow> string" where
  \<comment> \<open>the bytes of \<open>data\<close> that \<^verbatim>\<open>QFile::write\<close> stores at \<open>p\<close>\<close>
  "stored pf p data = (case capacity pf p of None \<Rightarrow> data | Some n \<Rightarrow> take n data)"

definition file_write :: "'a platform_scheme \<Rightarrow> path \<Rightarrow> string \<Rightarrow> files \<Rightarrow> nat \<times> files" where
  \<comment> \<open>\<^verbatim>\<open>file.write(data)\<close> on a file just opened for writing: the number of bytes
      written and the files after it (a failed write counts as a short one: the
      source only compares the count with the size of the data)\<close>
  "file_write pf p data fs =
     (length (stored pf p data),
      (case fs (canonical pf p) of
         Some f \<Rightarrow> fs(canonical pf p \<mapsto> f\<lparr>bytes := stored pf p data\<rparr>)
       | None \<Rightarrow> fs))"

definition file_remove :: "'a platform_scheme \<Rightarrow> path \<Rightarrow> files \<Rightarrow> bool \<times> files" where
  \<comment> \<open>\<^verbatim>\<open>QFile(path).remove()\<close>\<close>
  "file_remove pf p fs =
     (if fs (canonical pf p) \<noteq> None \<and> removable pf p
      then (True, fs(canonical pf p := None))
      else (False, fs))"

definition readAll :: "'a platform_scheme \<Rightarrow> files \<Rightarrow> path \<Rightarrow> string" where
  "readAll pf fs p =
     (case fs (canonical pf p) of
        Some f \<Rightarrow> if openReadable pf p then bytes f else []
      | None \<Rightarrow> [])"

definition writeAll :: "'a platform_scheme \<Rightarrow> string \<Rightarrow> path \<Rightarrow> files \<Rightarrow> bool \<times> files" where
  "writeAll pf data p fs =
     (case open_WriteOnly pf p fs of
        None \<Rightarrow> (False, fs)
      | Some fs1 \<Rightarrow>
          (let (n, fs2) = file_write pf p data fs1 in (n = length data, fs2)))"

subsection \<open>The certificate store\<close>

record Certificate =
  fullchain :: string
  privkey :: string

record CertificatePaths =
  cert :: path
  key :: path
  trustedAuthorities :: path

definition readCertificate :: "'a platform_scheme \<Rightarrow> files \<Rightarrow> CertificatePaths \<Rightarrow> Certificate" where
  "readCertificate pf fs ps =
     \<lparr>fullchain = readAll pf fs (cert ps), privkey = readAll pf fs (key ps)\<rparr>"

definition writeCertificate ::
  "'a platform_scheme \<Rightarrow> Certificate \<Rightarrow> CertificatePaths \<Rightarrow> files \<Rightarrow> bool \<times> files" where
  \<comment> \<open>\<^verbatim>\<open>&&\<close> does not write the key once the chain has failed\<close>
  "writeCertificate pf c ps fs =
     (let (ok1, fs1) = writeAll pf (fullchain c) (cert ps) fs in
      if ok1 then writeAll pf (privkey c) (key ps) fs1 else (False, fs1))"

definition createAccountKey :: "'a platform_scheme \<Rightarrow> string \<Rightarrow> path \<Rightarrow> files \<Rightarrow> bool \<times> files" where
  \<comment> \<open>\<open>pem\<close> is \<^verbatim>\<open>acme_lw::toPemString(acme_lw::makePrivateKey())\<close>; the results of
      \<^verbatim>\<open>setPermissions\<close> and \<^verbatim>\<open>write\<close> are not looked at\<close>
  "createAccountKey pf pem p fs =
     (case open_WriteOnly pf p fs of
        None \<Rightarrow> (False, fs)
      | Some fs1 \<Rightarrow>
          (let fs2 = (case fs1 (canonical pf p) of
                        Some f \<Rightarrow>
                          fs1(canonical pf p \<mapsto> f\<lparr>permissions := {ReadOwner, WriteOwner}\<rparr>)
                      | None \<Rightarrow> fs1)
           in (True, snd (file_write pf p pem fs2))))"

subsection \<open>The status document (nlohmann::json)\<close>

datatype json =
  JNull
| JString string
| JNumber int
| JObject "(string \<times> json) list"

fun member_set :: "string \<Rightarrow> json \<Rightarrow> (string \<times> json) list \<Rightarrow> (string \<times> json) list" where
  "member_set k v [] = [(k, v)]"
| "member_set k v ((k', v') # kvs) =
     (if k' = k then (k, v) # kvs else (k', v') # member_set k v kvs)"

fun json_at :: "json \<Rightarrow> string \<Rightarrow> json" where
  \<comment> \<open>the value of \<^verbatim>\<open>j[k]\<close>: a member that is not there reads as null\<close>
  "json_at (JObject kvs) k = (case map_of kvs k of Some v \<Rightarrow> v | None \<Rightarrow> JNull)"
| "json_at j k = JNull"

fun json_set :: "string \<Rightarrow> json \<Rightarrow> json \<Rightarrow> json" where
  \<comment> \<open>\<^verbatim>\<open>j[k] = v\<close>: null becomes an object. On a string or a number nlohmann throws
      \<^verbatim>\<open>type_error\<close>; the client indexes only the document that \<^verbatim>\<open>init\<close> builds
      (see \<open>status_shaped\<close>), and the value is left as it is there.\<close>
  "json_set k v (JObject kvs) = JObject (member_set k v kvs)"
| "json_set k v JNull = JObject [(k, v)]"
| "json_set k v j = j"

definition json_in :: "string \<Rightarrow> (json \<Rightarrow> json) \<Rightarrow> json \<Rightarrow> json" where
  \<comment> \<open>\<open>f\<close> applied to the reference \<^verbatim>\<open>j[k]\<close>\<close>
  "json_in k f j = json_set k (f (json_at j k)) j"

definition setError :: "string \<Rightarrow> json \<Rightarrow> json" where
  "setError type j =
     json_set ''error'' (JObject [(''type'', JString type)])
       (json_set ''status'' (JString ''error'') j)"

definition setError_data :: "string \<Rightarrow> json \<Rightarrow> json \<Rightarrow> json" where
  \<comment> \<open>the overload \<^verbatim>\<open>setError(json, type, data)\<close>\<close>
  "setError_data type data j = json_in ''error'' (json_set ''data'' data) (setError type j)"

definition message :: "string \<Rightarrow> json" where
  \<comment> \<open>the initializer \<^verbatim>\<open>{{"message", m}}\<close>\<close>
  "message m = JObject [(''message'', JString m)]"

definition unknown_status :: json where
  \<comment> \<open>the document that \<^verbatim>\<open>init\<close> assigns\<close>
  "unknown_status =
     JObject [(''directory'', JObject [(''status'', JString ''unknown'')]),
              (''account'', JObject [(''status'', JString ''unknown'')]),
              (''certificate'', JObject [(''status'', JString ''unknown'')])]"

fun is_object :: "json \<Rightarrow> bool" where
  "is_object (JObject kvs) = True"
| "is_object j = False"

definition status_shaped :: "json \<Rightarrow> bool" where
  \<comment> \<open>the shape \<^verbatim>\<open>init\<close> gives the document and every function below keeps: an
      object whose three stages are objects\<close>
  "status_shaped j =
     (is_object j \<and> is_object (json_at j ''directory'') \<and>
      is_object (json_at j ''account'') \<and> is_object (json_at j ''certificate''))"

subsection \<open>Challenge handlers\<close>

datatype error =
  LogicError string
| AcmeException string
| NullPointer

record Challenge =
  url :: QUrl
  content :: string

datatype AcmeChallengeHandler =
  AcmeHttpChallengeServer "Challenge list"
| AcmeHttpChallengeFiles "string \<rightharpoonup> string" "path list"
| AcmeHttpChallengeManual

record ChallengeHandlerParams =
  typeId :: string
  domainDirs :: "string \<rightharpoonup> string"

record response =
  code :: nat
  body :: string
  contentType :: "string option"

fun selfCheckDuration :: "AcmeChallengeHandler \<Rightarrow> int" where
  \<comment> \<open>milliseconds\<close>
  "selfCheckDuration (AcmeHttpChallengeServer chs) = 1000"
| "selfCheckDuration (AcmeHttpChallengeFiles dirs ps) = 2000"
| "selfCheckDuration AcmeHttpChallengeManual = 120000"

fun selfCheckInterval :: "AcmeChallengeHandler \<Rightarrow> int" where
  "selfCheckInterval (AcmeHttpChallengeServer chs) = 250"
| "selfCheckInterval (AcmeHttpChallengeFiles dirs ps) = 250"
| "selfCheckInterval AcmeHttpChallengeManual = 1000"

fun addChallenge ::
  "'a platform_scheme \<Rightarrow> string \<Rightarrow> string \<Rightarrow> string \<Rightarrow> AcmeChallengeHandler \<Rightarrow> files \<Rightarrow>
     AcmeChallengeHandler \<times> files" where
  "addChallenge pf domain location c (AcmeHttpChallengeServer chs) fs =
     (AcmeHttpChallengeServer (chs @ [\<lparr>url = urlOf pf location, content = c\<rparr>]), fs)"
| "addChallenge pf domain location c (AcmeHttpChallengeFiles dirs ps) fs =
     \<comment> \<open>\<^verbatim>\<open>dirs[domain]\<close> enters an empty directory name for a domain it does not hold\<close>
     (let dir = (case dirs domain of Some d \<Rightarrow> d | None \<Rightarrow> []);
          dirs' = dirs(domain \<mapsto> dir);
          challengePath = dir @ location
      in if mkpathOk pf (parentPath pf challengePath)
         then (case writeAll pf c challengePath fs of
                 (True, fs') \<Rightarrow> (AcmeHttpChallengeFiles dirs' (ps @ [challengePath]), fs')
               | (False, fs') \<Rightarrow> (AcmeHttpChallengeFiles dirs' ps, fs'))
         else (AcmeHttpChallengeFiles dirs' ps, fs))"
| "addChallenge pf domain location c AcmeHttpChallengeManual fs = (AcmeHttpChallengeManual, fs)"

fun destroy :: "'a platform_scheme \<Rightarrow> AcmeChallengeHandler \<Rightarrow> files \<Rightarrow> files" where
  \<comment> \<open>the destructors; removing the challenge directories changes no file\<close>
  "destroy pf (AcmeHttpChallengeFiles dirs ps) fs =
     fold (\<lambda>challengePath fs'. snd (file_remove pf challengePath fs')) ps fs"
| "destroy pf h fs = fs"

definition handleHTTPRequest :: "'a platform_scheme \<Rightarrow> Challenge list \<Rightarrow> QUrl \<Rightarrow> bool \<times> response" where
  \<comment> \<open>\<^verbatim>\<open>AcmeHttpChallengeServer::handleHTTPRequest\<close>; \<^verbatim>\<open>respond\<close> without a content
      type argument takes its default, \<open>None\<close> here. The body of the 404 answer
      passes through \<^verbatim>\<open>c_str()\<close>: the text of a URL is taken to hold no NUL.\<close>
  "handleHTTPRequest pf challenges u =
     (case find (\<lambda>x. url x = u) challenges of
        Some challenge \<Rightarrow>
          (True, \<lparr>code = 200, body = content challenge,
                  contentType = Some ''application/octet-stream''\<rparr>)
      | None \<Rightarrow>
          (let chstr = concat (map (\<lambda>ch. urlString pf (url ch) @ [CHR 0x0A]) challenges)
           in (True, \<lparr>code = 404,
                      body = ''Resource not found. Url is '' @ urlString pf u @
                             '' but expected any of'' @ [CHR 0x0A] @ chstr,
                      contentType = None\<rparr>)))"

definition makeChallengeHandler :: "ChallengeHandlerParams \<Rightarrow> error + AcmeChallengeHandler" where
  "makeChallengeHandler params =
     (if typeId params = ''server'' then Inr (AcmeHttpChallengeServer [])
      else if typeId params = ''files'' then Inr (AcmeHttpChallengeFiles (domainDirs params) [])
      else if typeId params = ''manual'' then Inr AcmeHttpChallengeManual
      else Inl (LogicError (''Invalid ACME HTTP challenge handler type id: '' @ typeId params)))"

subsection \<open>Settings, clock and the collaborators of the client\<close>

record Settings =
  acme_enable_client :: bool
  acme_account_key_path :: string
  acme_certificate_directory :: string
  acme_certificate_filename :: string
  acme_certificate_key_filename :: string
  acme_certificate_authority_filename :: string
  acme_certificate_domains :: "(string \<times> string) list"
  acme_challenge_handler_type :: string
  acme_directory_endpoint :: string
  acme_eab_kid :: string
  acme_eab_mac :: string

text \<open>
  What a run of the client reads besides the platform: the settings (each field the
  value of \<^verbatim>\<open>valueOrDefaultValueForKeyPath\<close> at that key, \<open>acme_certificate_domains\<close>
  the pairs of the members \<^verbatim>\<open>domain\<close> and \<^verbatim>\<open>directory\<close> of each entry); the reading
  \<open>now\<close> of \<^verbatim>\<open>system_clock\<close>, in ticks since the epoch, and the number of ticks
  of that clock in a millisecond; the PEM text of a fresh private key; the two
  expiry readers of \<^verbatim>\<open>acme_lw::Certificate\<close> (\<open>getExpiry\<close> may throw); whether the
  debug log of the category is on (its arguments are evaluated only then); and
  \<^verbatim>\<open>nlohmann::json::dump\<close>. Durations and time points are counts of ticks held in
  a 64-bit signed integer, the representation of \<^verbatim>\<open>system_clock::duration\<close>; the
  model keeps them in \<open>int\<close> and writes the wrap-around out at each operation that
  can leave the range (\<open>int64\<close>: signed overflow is undefined in C++, and the model
  takes the two's-complement result). \<^verbatim>\<open>QTimer::start(int msec)\<close> takes a 32-bit
  integer, to which the 64-bit count it is given is narrowed (\<open>int32\<close>).
\<close>

definition int64 :: "int \<Rightarrow> int" where
  \<comment> \<open>the value a 64-bit signed integer holds of \<open>k\<close>\<close>
  "int64 k = signed_take_bit 63 k"

definition int32 :: "int \<Rightarrow> int" where
  \<comment> \<open>the value a 32-bit signed integer holds of \<open>k\<close>\<close>
  "int32 k = signed_take_bit 31 k"

record env = platform +
  settings :: Settings
  now :: int
  ticksPerMs :: int
  makePrivateKeyPem :: string
  getExpiry :: "Certificate \<Rightarrow> error + int"
  getExpiryOrError :: "Certificate \<Rightarrow> int option"
  debugEnabled :: bool
  dump :: "json \<Rightarrow> string"

definition hours :: "env \<Rightarrow> int \<Rightarrow> int" where
  \<comment> \<open>\<^verbatim>\<open>std::chrono::hours\<close> as a \<^verbatim>\<open>system_clock::duration\<close>\<close>
  "hours e n = int64 (n * 3600000 * ticksPerMs e)"

definition duration_cast_milliseconds :: "env \<Rightarrow> int \<Rightarrow> int" where
  \<comment> \<open>\<^verbatim>\<open>duration_cast\<close> truncates towards zero\<close>
  "duration_cast_milliseconds e d = d sdiv ticksPerMs e"

definition duration_cast_seconds :: "env \<Rightarrow> int \<Rightarrow> int" where
  "duration_cast_seconds e d = d sdiv (1000 * ticksPerMs e)"

definition remainingTime :: "env \<Rightarrow> int \<Rightarrow> int" where
  \<comment> \<open>\<^verbatim>\<open>(expiryTime - system_clock::now()) * 2 / 3\<close> on the 64-bit tick count; the
      integer division of C++ is towards zero\<close>
  "remainingTime e expiryTime = int64 (int64 (expiryTime - now e) * 2) sdiv 3"

definition secondsSinceEpoch :: "env \<Rightarrow> int \<Rightarrow> int" where
  "secondsSinceEpoch e t = duration_cast_seconds e t"

subsection \<open>The client and what it acts on\<close>

record cycle =
  certPaths :: CertificatePaths
  domains :: "string list"
  challengeHandlerParams :: ChallengeHandlerParams

text \<open>
  Modelled from the spec: acme\_lw (\<^verbatim>\<open>init\<close>, \<^verbatim>\<open>createAccount\<close>, \<^verbatim>\<open>orderCertificate\<close>,
  \<^verbatim>\<open>waitForGet\<close>, \<^verbatim>\<open>retrieveCertificate\<close>) is not among the sources. By section 5 of
  the specification every network request is a suspension point: a call hands over
  a callback and returns, and the callback runs later on the event loop. The model
  records each call with what its callback has captured (a \<open>cycle\<close>); each
  callback of the source is a function below, applied to the state at the time
  acme\_lw runs it. The client handle, the order and finalize URLs and the
  challenge list pass through the callbacks unread and are left out.
\<close>

datatype acme_request =
  AcmeInit cycle string string string string
| CreateAccount cycle
| OrderCertificate cycle
| SelfCheck cycle "string list" int int
| RetrieveCertificate cycle

text \<open>
  The members of \<^verbatim>\<open>DomainServerAcmeClient\<close> (\<open>status\<close>, \<open>expiry\<close>, \<open>renewalTimer\<close>:
  the argument \<^verbatim>\<open>msec\<close> of the last \<^verbatim>\<open>renewalTimer.start(int msec)\<close>, kept while the
  single-shot timer has not fired (what Qt does with a negative interval is Qt's
  and not modelled),
  \<open>challengeHandler\<close>, \<open>selfCheckUrls\<close>) and what the client acts on: the files, the
  \<^verbatim>\<open>certificateUpdated\<close> signals emitted and the acme\_lw calls made, oldest first.
\<close>

record state =
  status :: json
  expiry :: int
  renewalTimer :: "int option"
  challengeHandler :: "AcmeChallengeHandler option"
  selfCheckUrls :: "string list"
  disk :: files
  certificateUpdated :: "CertificatePaths list"
  acmeRequests :: "acme_request list"

definition getAccountKeyPath :: "env \<Rightarrow> path" where
  "getAccountKeyPath e = acme_account_key_path (settings e)"

definition getCertificatePaths :: "env \<Rightarrow> CertificatePaths" where
  "getCertificatePaths e =
     (let certDir = (if acme_certificate_directory (settings e) \<noteq> []
                     then acme_certificate_directory (settings e)
                     else appLocalDataPath e)
      in \<lparr>cert = filePath e certDir (acme_certificate_filename (settings e)),
          key = filePath e certDir (acme_certificate_key_filename (settings e)),
          trustedAuthorities =
            filePath e certDir (acme_certificate_authority_filename (settings e))\<rparr>)"

definition updateCheckTimeout :: "env \<Rightarrow> state \<Rightarrow> state" where
  \<comment> \<open>the slot of \<^verbatim>\<open>updateCheckTimer\<close>, lines 267 to 281\<close>
  "updateCheckTimeout e s =
     (let ps = getCertificatePaths e in
      if file_exists e (disk s) (cert ps) \<and> file_exists e (disk s) (key ps)
      then (let c = readCertificate e (disk s) ps in
            if fullchain c \<noteq> [] \<and> privkey c \<noteq> []
            then (case getExpiryOrError e c of
                    Some newExpiry \<Rightarrow>
                      if expiry s < newExpiry
                      then s\<lparr>certificateUpdated := certificateUpdated s @ [ps],
                             expiry := newExpiry\<rparr>
                      else s
                  | None \<Rightarrow> s)
            else s)
      else s)"

definition scheduleRenewalIn :: "env \<Rightarrow> int \<Rightarrow> state \<Rightarrow> state" where
  "scheduleRenewalIn e duration s =
     s\<lparr>renewalTimer := Some (int32 (duration_cast_milliseconds e duration)),
       status := json_in ''certificate''
                   (json_set ''renewal''
                      (JNumber (secondsSinceEpoch e (int64 (now e + duration)))))
                   (status s)\<rparr>"

definition accountKeyPath :: "env \<Rightarrow> path" where
  \<comment> \<open>the local \<^verbatim>\<open>accountKeyPath\<close> of \<^verbatim>\<open>generateCertificate\<close>, lines 535 to 538\<close>
  "accountKeyPath e =
     (if getAccountKeyPath e = []
      then filePath e (appLocalDataPath e) ''acme_account_key.pem''
      else getAccountKeyPath e)"

definition newCycle :: "env \<Rightarrow> CertificatePaths \<Rightarrow> cycle" where
  \<comment> \<open>what the callbacks of \<^verbatim>\<open>generateCertificate\<close> capture, lines 560 to 574: the
      paths, the domains in ACE form and the parameters of the challenge handler\<close>
  "newCycle e ps =
     (let domainList = acme_certificate_domains (settings e);
          ds = map (\<lambda>(d, dir). toAce e d) domainList;
          dirs = fold (\<lambda>(d, dir) m. m(toAce e d \<mapsto> (if dir \<noteq> [] then dir else ''.'')))
                   domainList Map.empty;
          params = \<lparr>typeId = acme_challenge_handler_type (settings e), domainDirs = dirs\<rparr>
      in \<lparr>certPaths = ps, domains = ds, challengeHandlerParams = params\<rparr>)"

definition generateCertificate :: "env \<Rightarrow> CertificatePaths \<Rightarrow> state \<Rightarrow> state" where
  \<comment> \<open>up to the call of \<^verbatim>\<open>acme_lw::init\<close>, which returns at once; the callbacks it
      is given are the functions that follow\<close>
  "generateCertificate e ps s =
     (let (created, fs1) =
            (if \<not> file_exists e (disk s) (accountKeyPath e)
             then createAccountKey e (makePrivateKeyPem e) (accountKeyPath e) (disk s)
             else (True, disk s))
      in if \<not> created
         then s\<lparr>disk := fs1,
                status := json_in ''account'' (setError ''key-write'') (status s)\<rparr>
         else (case (if openReadable e (accountKeyPath e)
                     then fs1 (canonical e (accountKeyPath e)) else None) of
                 None \<Rightarrow>
                   s\<lparr>disk := fs1,
                     status := json_in ''account'' (setError ''key-read'') (status s)\<rparr>
               | Some accountKeyFile \<Rightarrow>
                   s\<lparr>disk := fs1,
                     selfCheckUrls := [],
                     status := json_in ''directory''
                                 (json_set ''status'' (JString ''pending'')) (status s),
                     acmeRequests := acmeRequests s @
                       [AcmeInit (newCycle e ps) (bytes accountKeyFile)
                          (acme_directory_endpoint (settings e))
                          (acme_eab_kid (settings e)) (acme_eab_mac (settings e))]\<rparr>))"

definition handleRenewal :: "env \<Rightarrow> int \<Rightarrow> CertificatePaths \<Rightarrow> state \<Rightarrow> state" where
  "handleRenewal e expiryTime ps s =
     (let s1 = s\<lparr>status := json_in ''certificate''
                              (\<lambda>c. json_set ''expiry'' (JNumber (secondsSinceEpoch e expiryTime))
                                     (json_set ''status'' (JString ''ok'') c))
                              (status s),
                  expiry := expiryTime\<rparr>;
          remaining = remainingTime e expiryTime
      in if remaining > 0 then scheduleRenewalIn e remaining s1
         else generateCertificate e ps s1)"

definition checkExpiry :: "env \<Rightarrow> CertificatePaths \<Rightarrow> state \<Rightarrow> state" where
  "checkExpiry e ps s =
     (let c = readCertificate e (disk s) ps in
      if fullchain c = [] \<or> privkey c = []
      then s\<lparr>status := json_in ''certificate''
                          (setError_data ''invalid'' (message ''Failed to read certificate files.''))
                          (status s)\<rparr>
      else (case getExpiryOrError e c of
              Some t \<Rightarrow> handleRenewal e t ps s
            | None \<Rightarrow>
                s\<lparr>status := json_in ''certificate''
                              (setError_data ''invalid''
                                 (message ''Failed to read certificate expiry date.''))
                              (status s)\<rparr>))"

definition stable_partition :: "('a \<Rightarrow> bool) \<Rightarrow> 'a list \<Rightarrow> 'a list \<times> nat" where
  \<comment> \<open>\<^verbatim>\<open>std::stable_partition\<close>: the reordered range and the position of the first
      element that does not satisfy the predicate\<close>
  "stable_partition P xs = (filter P xs @ filter (\<lambda>x. \<not> P x) xs, length (filter P xs))"

definition init :: "env \<Rightarrow> state \<Rightarrow> state" where
  "init e s =
     (let s0 = s\<lparr>status := unknown_status\<rparr> in
      if \<not> acme_enable_client (settings e) then s0
      else (let ps = getCertificatePaths e;
                (pathsByExistence, notExisting) =
                  stable_partition (file_exists e (disk s0)) [cert ps, key ps]
            in if notExisting = length pathsByExistence then checkExpiry e ps s0
               else if notExisting = 0 then generateCertificate e ps s0
               else s0\<lparr>status := json_in ''certificate''
                                    (setError_data ''missing''
                                       (JObject [(''missing'', JString (pathsByExistence ! notExisting)),
                                                 (''present'', JString (pathsByExistence ! 0))]))
                                    (status s0)\<rparr>))"

subsection \<open>The callbacks of a cycle\<close>

definition terminalContinuation ::
  "env \<Rightarrow> Certificate \<Rightarrow> CertificatePaths \<Rightarrow> bool \<Rightarrow> state \<Rightarrow> error + state" where
  \<comment> \<open>the last argument of \<^verbatim>\<open>accountCallback\<close>, lines 588 to 595, called \<^verbatim>\<open>next\<close>
      by the callbacks\<close>
  "terminalContinuation e c ps success s =
     (if success
      then (case getExpiry e c of
              Inl err \<Rightarrow> Inl err
            | Inr t \<Rightarrow>
                Inr (handleRenewal e t ps
                       (s\<lparr>certificateUpdated := certificateUpdated s @ [ps]\<rparr>)))
      else Inr (scheduleRenewalIn e (hours e 24) s))"

definition resetChallengeHandler :: "env \<Rightarrow> state \<Rightarrow> state" where
  \<comment> \<open>\<^verbatim>\<open>challengeHandler = nullptr\<close>, which destroys the handler held\<close>
  "resetChallengeHandler e s =
     (case challengeHandler s of
        None \<Rightarrow> s
      | Some h \<Rightarrow> s\<lparr>challengeHandler := None, disk := destroy e h (disk s)\<rparr>)"

definition CertificateCallback_cert :: "env \<Rightarrow> cycle \<Rightarrow> Certificate \<Rightarrow> state \<Rightarrow> error + state" where
  \<comment> \<open>\<^verbatim>\<open>CertificateCallback::operator()(AcmeClient, Certificate)\<close>\<close>
  "CertificateCallback_cert e cyc c s =
     (let s1 = resetChallengeHandler e s in
      case (if debugEnabled e then getExpiry e c else Inr 0) of
        Inl err \<Rightarrow> Inl err
      | Inr logged \<Rightarrow>
          (let (success, fs') = writeCertificate e c (certPaths cyc) (disk s1);
               s2 = s1\<lparr>disk := fs'\<rparr>;
               s3 = (if \<not> success
                     then s2\<lparr>status := json_in ''certificate''
                                          (setError_data ''write''
                                             (message ''Failed to write certificate files.''))
                                          (status s2)\<rparr>
                     else s2)
           in terminalContinuation e c (certPaths cyc) success s3))"

definition CertificateCallback_error :: "env \<Rightarrow> cycle \<Rightarrow> string \<Rightarrow> state \<Rightarrow> error + state" where
  \<comment> \<open>\<^verbatim>\<open>CertificateCallback::operator()(AcmeClient, AcmeException)\<close>; \<open>what\<close> is
      \<^verbatim>\<open>error.what()\<close>\<close>
  "CertificateCallback_error e cyc what s =
     (let s1 = s\<lparr>status := json_in ''certificate'' (setError_data ''acme'' (message what))
                              (status s)\<rparr>;
          s2 = resetChallengeHandler e s1
      in terminalContinuation e \<lparr>fullchain = [], privkey = []\<rparr> (certPaths cyc) False s2)"

definition OrderCallback_order :: "env \<Rightarrow> cycle \<Rightarrow> state \<Rightarrow> error + state" where
  \<comment> \<open>\<^verbatim>\<open>OrderCallback::operator()(AcmeClient, challenges, domains, finalUrl, orderUrl)\<close>:
      it starts the self-check and calls through \<^verbatim>\<open>challengeHandler\<close> without a test\<close>
  "OrderCallback_order e cyc s =
     (case challengeHandler s of
        None \<Rightarrow> Inl NullPointer
      | Some h \<Rightarrow>
          Inr (s\<lparr>acmeRequests := acmeRequests s @
                    [SelfCheck cyc (selfCheckUrls s) (selfCheckDuration h) (selfCheckInterval h)],
                  selfCheckUrls := []\<rparr>))"

definition selfCheckFinished :: "env \<Rightarrow> cycle \<Rightarrow> state \<Rightarrow> state" where
  \<comment> \<open>the callback of \<^verbatim>\<open>challengeSelfCheck\<close>, lines 423 to 428, run by the destructor
      of \<^verbatim>\<open>ChallengeSelfCheck\<close> whatever the answers to the GET requests were\<close>
  "selfCheckFinished e cyc s = s\<lparr>acmeRequests := acmeRequests s @ [RetrieveCertificate cyc]\<rparr>"

definition OrderCallback_error :: "env \<Rightarrow> cycle \<Rightarrow> string \<Rightarrow> state \<Rightarrow> error + state" where
  \<comment> \<open>\<^verbatim>\<open>OrderCallback::operator()(AcmeClient, AcmeException)\<close>\<close>
  "OrderCallback_error e cyc what s =
     terminalContinuation e \<lparr>fullchain = [], privkey = []\<rparr> (certPaths cyc) False
       (s\<lparr>status := json_in ''certificate'' (setError_data ''acme'' (message what)) (status s),
          selfCheckUrls := []\<rparr>)"

definition AccountCallback_client :: "env \<Rightarrow> cycle \<Rightarrow> state \<Rightarrow> state" where
  \<comment> \<open>\<^verbatim>\<open>AccountCallback::operator()(AcmeClient)\<close>\<close>
  "AccountCallback_client e cyc s =
     s\<lparr>status := json_in ''certificate'' (json_set ''status'' (JString ''pending''))
                   (json_in ''account'' (json_set ''status'' (JString ''ok'')) (status s)),
       acmeRequests := acmeRequests s @ [OrderCertificate cyc]\<rparr>"

definition challengeCallback ::
  "env \<Rightarrow> cycle \<Rightarrow> string \<Rightarrow> string \<Rightarrow> string \<Rightarrow> state \<Rightarrow> error + state" where
  \<comment> \<open>the challenge callback given to \<^verbatim>\<open>acme_lw::orderCertificate\<close>, lines 477 to 488\<close>
  "challengeCallback e cyc domain location keyAuth s =
     (case (case challengeHandler s of
              None \<Rightarrow> makeChallengeHandler (challengeHandlerParams cyc)
            | Some h \<Rightarrow> Inr h) of
        Inl err \<Rightarrow> Inl err
      | Inr h \<Rightarrow>
          (let (h', fs') = addChallenge e domain location keyAuth h (disk s)
           in Inr (s\<lparr>challengeHandler := Some h',
                      disk := fs',
                      selfCheckUrls := selfCheckUrls s @ [''http://'' @ domain @ location]\<rparr>)))"

definition AccountCallback_client_error :: "env \<Rightarrow> cycle \<Rightarrow> string \<Rightarrow> state \<Rightarrow> error + state" where
  \<comment> \<open>\<^verbatim>\<open>AccountCallback::operator()(AcmeClient, AcmeException)\<close>\<close>
  "AccountCallback_client_error e cyc what s =
     terminalContinuation e \<lparr>fullchain = [], privkey = []\<rparr> (certPaths cyc) False
       (s\<lparr>status := json_in ''account'' (setError_data ''acme'' (message what)) (status s),
          selfCheckUrls := []\<rparr>)"

definition AccountCallback_error :: "env \<Rightarrow> cycle \<Rightarrow> string \<Rightarrow> state \<Rightarrow> error + state" where
  \<comment> \<open>\<^verbatim>\<open>AccountCallback::operator()(AcmeException)\<close>\<close>
  "AccountCallback_error e cyc what s =
     terminalContinuation e \<lparr>fullchain = [], privkey = []\<rparr> (certPaths cyc) False
       (s\<lparr>status := json_in ''directory'' (setError_data ''acme'' (message what)) (status s),
          selfCheckUrls := []\<rparr>)"

definition directoryCallback :: "env \<Rightarrow> cycle \<Rightarrow> state \<Rightarrow> state" where
  \<comment> \<open>the first argument of \<^verbatim>\<open>forwardAcmeError\<close>, lines 583 to 586\<close>
  "directoryCallback e cyc s =
     s\<lparr>status := json_in ''account'' (json_set ''status'' (JString ''pending''))
                   (json_in ''directory'' (json_set ''status'' (JString ''ok'')) (status s)),
       acmeRequests := acmeRequests s @ [CreateAccount cyc]\<rparr>"

subsection \<open>The control surface and the timers\<close>

datatype Operation =
  GetOperation | PostOperation | PutOperation | DeleteOperation | HeadOperation | CustomOperation

definition handleAuthenticatedHTTPRequest ::
  "env \<Rightarrow> Operation \<Rightarrow> string \<Rightarrow> string \<Rightarrow> state \<Rightarrow> bool \<times> response option \<times> state" where
  \<comment> \<open>\<open>op\<close> is \<^verbatim>\<open>connection->requestOperation()\<close>, \<open>urlPath\<close> is \<^verbatim>\<open>url.path()\<close>,
      \<open>requestContent\<close> is \<^verbatim>\<open>connection->requestContent()\<close>; the result is the
      value returned, the response sent and the state\<close>
  "handleAuthenticatedHTTPRequest e op urlPath requestContent s =
     (let ps = getCertificatePaths e;
          fileMap = [(''/acme/account-key'', getAccountKeyPath e),
                     (''/acme/cert'', cert ps),
                     (''/acme/cert-key'', key ps),
                     (''/acme/cert-authorities'', trustedAuthorities ps)]
      in if op = GetOperation
         then (if urlPath = ''/acme/status''
               then (True, Some \<lparr>code = 200, body = dump e (status s),
                                 contentType = Some ''application/json''\<rparr>, s)
               else (False, None, s))
         else if op = PostOperation
         then (if urlPath = ''/acme/update''
               then (if json_at (status s) ''directory'' \<noteq> JString ''pending'' \<and>
                        json_at (status s) ''account'' \<noteq> JString ''pending'' \<and>
                        json_at (status s) ''certificate'' \<noteq> JString ''pending''
                     then (True, Some \<lparr>code = 200, body = [], contentType = None\<rparr>, init e s)
                     else (True, Some \<lparr>code = 409, body = [], contentType = None\<rparr>, s))
               else (False, None, s))
         else (case find (\<lambda>file. fst file = urlPath) fileMap of
                 Some file \<Rightarrow>
                   (let filePath' = snd file in
                    if op = PutOperation
                    then (if file_exists e (disk s) filePath'
                          then (True, Some \<lparr>code = 409, body = [], contentType = None\<rparr>, s)
                          else (let (written, fs') = writeAll e requestContent filePath' (disk s)
                                in (True,
                                    Some \<lparr>code = (if written then 200 else 500), body = [],
                                          contentType = None\<rparr>,
                                    s\<lparr>disk := fs'\<rparr>)))
                    else if op = DeleteOperation
                    then (let (removed, fs') = file_remove e filePath' (disk s)
                          in (True,
                              Some \<lparr>code = (if removed then 200 else 500), body = [],
                                    contentType = None\<rparr>,
                              s\<lparr>disk := fs'\<rparr>))
                    else (False, None, s))
               | None \<Rightarrow> (False, None, s)))"

definition renewalTimeout :: "env \<Rightarrow> state \<Rightarrow> state" where
  \<comment> \<open>the slot of the single-shot \<^verbatim>\<open>renewalTimer\<close>, which is no longer active when
      its slot runs\<close>
  "renewalTimeout e s = init e (s\<lparr>renewalTimer := None\<rparr>)"

definition DomainServerAcmeClient :: "env \<Rightarrow> int \<Rightarrow> files \<Rightarrow> state" where
  \<comment> \<open>the constructor; \<open>expiry0\<close> is the initial value of the member \<^verbatim>\<open>expiry\<close>, which
      the header declares\<close>
  "DomainServerAcmeClient e expiry0 fs =
     init e \<lparr>status = JNull, expiry = expiry0, renewalTimer = None, challengeHandler = None,
             selfCheckUrls = [], disk = fs, certificateUpdated = [], acmeRequests = []\<rparr>"

subsection \<open>A concrete setting\<close>

text \<open>
  One platform on which every path is canonical, every file operation succeeds and
  a new file is readable by all, with the settings of a first start: no directory
  and no account key path configured, one domain, the manual handler. The expiry
  readers take a chain of \<open>n\<close> bytes to expire \<open>n\<close> days after the epoch; the clock
  stands at the epoch and ticks in nanoseconds.
\<close>

definition env0 :: env where
  "env0 =
     \<lparr>canonical = (\<lambda>p. p),
      openWritable = (\<lambda>p. True), openReadable = (\<lambda>p. True), capacity = (\<lambda>p. None),
      removable = (\<lambda>p. True), mkpathOk = (\<lambda>p. True),
      defaultPermissions = {ReadOwner, WriteOwner, ReadGroup, ReadOther},
      filePath = (\<lambda>d n. d @ ''/'' @ n),
      parentPath = (\<lambda>p. rev (drop 1 (dropWhile (\<lambda>c. c \<noteq> CHR ''/'') (rev p)))),
      appLocalDataPath = ''/data'',
      urlOf = (\<lambda>u. u), urlString = (\<lambda>u. u), toAce = (\<lambda>d. d),
      settings =
        \<lparr>acme_enable_client = True, acme_account_key_path = [],
         acme_certificate_directory = [],
         acme_certificate_filename = ''fullchain.pem'',
         acme_certificate_key_filename = ''privkey.pem'',
         acme_certificate_authority_filename = ''ca.pem'',
         acme_certificate_domains = [(''example.org'', [])],
         acme_challenge_handler_type = ''manual'',
         acme_directory_endpoint = ''https://ca.example/directory'',
         acme_eab_kid = [], acme_eab_mac = []\<rparr>,
      now = 0, ticksPerMs = 1000000, makePrivateKeyPem = ''ACCOUNT KEY'',
      getExpiry = (\<lambda>c. if fullchain c = [] then Inl (AcmeException ''no certificate'')
                        else Inr (int (length (fullchain c)) * 86400000000000)),
      getExpiryOrError = (\<lambda>c. if fullchain c = [] then None
                               else Some (int (length (fullchain c)) * 86400000000000)),
      debugEnabled = True, dump = (\<lambda>j. [])\<rparr>"

definition state0 :: state where
  \<comment> \<open>the members as the constructor leaves them before it calls \<^verbatim>\<open>init\<close>, no file\<close>
  "state0 =
     \<lparr>status = JNull, expiry = 0, renewalTimer = None, challengeHandler = None,
      selfCheckUrls = [], disk = Map.empty, certificateUpdated = [], acmeRequests = []\<rparr>"

definition state1 :: state where
  \<comment> \<open>the same with the document \<^verbatim>\<open>init\<close> assigns\<close>
  "state1 = state0\<lparr>status := unknown_status\<rparr>"

definition installed :: files where
  \<comment> \<open>a chain and a key at the paths of \<open>env0\<close>\<close>
  "installed =
     [''/data/fullchain.pem'' \<mapsto> \<lparr>bytes = ''CHAIN'', permissions = {ReadOwner, WriteOwner}\<rparr>,
      ''/data/privkey.pem'' \<mapsto> \<lparr>bytes = ''KEY'', permissions = {ReadOwner, WriteOwner}\<rparr>]"

definition external_update :: "env \<Rightarrow> state \<Rightarrow> bool" where
  \<comment> \<open>the condition of the periodic check in the words of the specification: both
      certificate files exist, both read as non-empty, the expiry parses, and the
      parsed expiry is strictly greater than the last known one\<close>
  "external_update e s =
     (let ps = getCertificatePaths e; c = readCertificate e (disk s) ps in
      file_exists e (disk s) (cert ps) \<and> file_exists e (disk s) (key ps) \<and>
      fullchain c \<noteq> [] \<and> privkey c \<noteq> [] \<and>
      (case getExpiryOrError e c of Some t \<Rightarrow> expiry s < t | None \<Rightarrow> False))"

section \<open>Properties\<close>

subsection \<open>The status document and the clock\<close>

lemma map_of_member_set:
  "map_of (member_set k v kvs) k' = (if k' = k then Some v else map_of kvs k')"
  by (induction kvs) auto

lemma json_at_set_other: "k' \<noteq> k \<Longrightarrow> json_at (json_set k v j) k' = json_at j k'"
  by (cases j) (simp_all add: map_of_member_set)

lemma json_at_set_same: "is_object j \<Longrightarrow> json_at (json_set k v j) k = v"
  by (cases j) (simp_all add: map_of_member_set)

lemma is_object_set: "is_object j \<Longrightarrow> is_object (json_set k v j)"
  by (cases j) simp_all

lemma json_at_in_other: "k' \<noteq> k \<Longrightarrow> json_at (json_in k f j) k' = json_at j k'"
  by (simp add: json_in_def json_at_set_other)

lemma json_at_in_same: "is_object j \<Longrightarrow> json_at (json_in k f j) k = f (json_at j k)"
  by (simp add: json_in_def json_at_set_same)

lemma is_object_in: "is_object j \<Longrightarrow> is_object (json_in k f j)"
  by (simp add: json_in_def is_object_set)

lemma is_object_setError: "is_object j \<Longrightarrow> is_object (setError t j)"
  by (simp add: setError_def is_object_set)

lemma is_object_setError_data: "is_object j \<Longrightarrow> is_object (setError_data t d j)"
  by (simp add: setError_data_def is_object_in is_object_setError)



lemma status_shaped_in:
  assumes "status_shaped j" and "\<And>x. is_object x \<Longrightarrow> is_object (f x)"
  shows "status_shaped (json_in k f j)"
proof -
  have "is_object (json_at (json_in k f j) k')" if "is_object (json_at j k')" for k'
  proof (cases "k' = k")
    case True
    with assms that show ?thesis by (simp add: status_shaped_def json_at_in_same)
  next
    case False
    with that show ?thesis by (simp add: json_at_in_other)
  qed
  with assms(1) show ?thesis by (simp add: status_shaped_def is_object_in)
qed

lemma status_shaped_unknown: "status_shaped unknown_status"
  by (simp add: status_shaped_def unknown_status_def)




lemma int64_mod: "int64 k = (k + 2 ^ 63) mod 2 ^ 64 - 2 ^ 63"
  by (simp add: int64_def signed_take_bit_eq_take_bit_shift take_bit_eq_mod)

lemma int32_mod: "int32 k = (k + 2 ^ 31) mod 2 ^ 32 - 2 ^ 31"
  by (simp add: int32_def signed_take_bit_eq_take_bit_shift take_bit_eq_mod)


text \<open>
  The document keeps the shape \<^verbatim>\<open>init\<close> gives it, so no function of the client
  indexes a string or a number.
\<close>

lemma shaped_scheduleRenewalIn:
  "status_shaped (status s) \<Longrightarrow> status_shaped (status (scheduleRenewalIn e d s))"
  by (simp add: scheduleRenewalIn_def status_shaped_in is_object_set)

lemma shaped_generateCertificate:
  "status_shaped (status s) \<Longrightarrow> status_shaped (status (generateCertificate e ps s))"
  by (auto simp: generateCertificate_def Let_def status_shaped_in is_object_set is_object_setError
      split: prod.splits option.splits)

lemma shaped_handleRenewal:
  "status_shaped (status s) \<Longrightarrow> status_shaped (status (handleRenewal e t ps s))"
  by (simp add: handleRenewal_def Let_def shaped_scheduleRenewalIn shaped_generateCertificate
      status_shaped_in is_object_set)

lemma shaped_checkExpiry:
  "status_shaped (status s) \<Longrightarrow> status_shaped (status (checkExpiry e ps s))"
  by (simp add: checkExpiry_def Let_def shaped_handleRenewal status_shaped_in
      is_object_setError_data split: option.splits)

lemma shaped_init: "status_shaped (status (init e s))"
  by (auto simp: init_def Let_def status_shaped_unknown shaped_checkExpiry
      shaped_generateCertificate status_shaped_in is_object_setError_data split: prod.splits)

lemma shaped_terminalContinuation:
  "status_shaped (status s) \<Longrightarrow> terminalContinuation e c ps b s = Inr s' \<Longrightarrow>
     status_shaped (status s')"
  by (auto simp: terminalContinuation_def shaped_handleRenewal shaped_scheduleRenewalIn
      split: if_splits sum.splits)


subsection \<open>The certificate store\<close>

lemma stored_full: "length (stored pf p d) = length d \<Longrightarrow> stored pf p d = d"
  by (auto simp: stored_def split: option.splits)

lemma writeAll_True:
  "writeAll pf d p fs = (True, fs') \<Longrightarrow>
     fs' = fs(canonical pf p \<mapsto>
               \<lparr>bytes = d,
                permissions = (case fs (canonical pf p) of
                                 Some f \<Rightarrow> permissions f
                               | None \<Rightarrow> defaultPermissions pf)\<rparr>)"
  by (auto simp: writeAll_def open_WriteOnly_def file_write_def stored_full
      split: if_splits option.splits prod.splits)

lemma writeCertificate_True:
  assumes "writeCertificate pf c ps fs = (True, fs')"
  obtains fs1 where "writeAll pf (fullchain c) (cert ps) fs = (True, fs1)"
    and "writeAll pf (privkey c) (key ps) fs1 = (True, fs')"
  using assms by (auto simp: writeCertificate_def split: prod.splits if_splits)

lemmas store_eval =
  env0_def writeCertificate_def writeAll_def open_WriteOnly_def file_write_def stored_def
  getCertificatePaths_def readCertificate_def readAll_def

lemma write_first_start:
  "writeCertificate env0 \<lparr>fullchain = ''CHAIN'', privkey = ''KEY''\<rparr>
     (getCertificatePaths env0) Map.empty =
   (True,
    [''/data/fullchain.pem'' \<mapsto>
       \<lparr>bytes = ''CHAIN'', permissions = {ReadOwner, WriteOwner, ReadGroup, ReadOther}\<rparr>,
     ''/data/privkey.pem'' \<mapsto>
       \<lparr>bytes = ''KEY'', permissions = {ReadOwner, WriteOwner, ReadGroup, ReadOther}\<rparr>])"
  by (simp add: store_eval)

text \<open>
  \<^verbatim>\<open>writeAll\<close> sets no permission, so \<^verbatim>\<open>writeCertificate\<close> sets none: after a
  successful write each of the two files carries the permissions it had before the
  call, and the default permissions of the platform when the call created it.
\<close>

lemma writeCertificate_keeps_permissions:
  assumes "writeCertificate pf c ps fs = (True, fs')"
  shows "(\<exists>k. fs' (canonical pf (key ps)) = Some k \<and>
              permissions k = (case fs (canonical pf (key ps)) of
                                 Some f \<Rightarrow> permissions f
                               | None \<Rightarrow> defaultPermissions pf)) \<and>
         (\<exists>k. fs' (canonical pf (cert ps)) = Some k \<and>
              permissions k = (case fs (canonical pf (cert ps)) of
                                 Some f \<Rightarrow> permissions f
                               | None \<Rightarrow> defaultPermissions pf))"
proof -
  from assms obtain fs1 where w1: "writeAll pf (fullchain c) (cert ps) fs = (True, fs1)"
    and w2: "writeAll pf (privkey c) (key ps) fs1 = (True, fs')"
    by (rule writeCertificate_True)
  from writeAll_True [OF w1] writeAll_True [OF w2]
  show ?thesis by (auto split: option.splits)
qed

text \<open>
  C3: \<^verbatim>\<open>writeCertificate(cert, paths)\<close> is to write the private-key file with
  owner-only read and write permissions. The code does not: on a first start, on a
  platform whose new files are readable by all, the write succeeds and leaves the
  private-key file readable by group and others, where \<^verbatim>\<open>createAccountKey\<close> on the
  same platform leaves the account key, the other private key the client writes,
  readable and writable by its owner only.
\<close>

theorem writeCertificate_key_not_owner_only:
  "fst (writeCertificate env0 \<lparr>fullchain = ''CHAIN'', privkey = ''KEY''\<rparr>
          (getCertificatePaths env0) Map.empty) \<and>
   map_option permissions
     (snd (writeCertificate env0 \<lparr>fullchain = ''CHAIN'', privkey = ''KEY''\<rparr>
             (getCertificatePaths env0) Map.empty) (key (getCertificatePaths env0)))
   = Some {ReadOwner, WriteOwner, ReadGroup, ReadOther} \<and>
   ReadOther \<notin> {ReadOwner, WriteOwner} \<and>
   map_option permissions
     (snd (createAccountKey env0 ''ACCOUNT KEY'' ''/data/acme_account_key.pem'' Map.empty)
        ''/data/acme_account_key.pem'')
   = Some {ReadOwner, WriteOwner}"
  by (simp add: store_eval createAccountKey_def)




subsection \<open>The periodic check for an external update\<close>

text \<open>
  C7. On a tick of the periodic check the signal \<^verbatim>\<open>certificateUpdated(paths)\<close> is
  emitted exactly when both certificate files exist, both read as non-empty, the
  expiry parses and the parsed expiry is strictly greater than the stored one; the
  stored expiry changes exactly then, to the parsed expiry; a tick that does not
  meet the condition changes nothing.
\<close>

theorem updateCheck_iff_external_update:
  "(certificateUpdated (updateCheckTimeout e s) \<noteq> certificateUpdated s \<longleftrightarrow> external_update e s) \<and>
   (expiry (updateCheckTimeout e s) \<noteq> expiry s \<longleftrightarrow> external_update e s) \<and>
   (if external_update e s
    then certificateUpdated (updateCheckTimeout e s) =
           certificateUpdated s @ [getCertificatePaths e] \<and>
         getExpiryOrError e (readCertificate e (disk s) (getCertificatePaths e)) =
           Some (expiry (updateCheckTimeout e s)) \<and>
         updateCheckTimeout e s =
           s\<lparr>certificateUpdated := certificateUpdated s @ [getCertificatePaths e],
             expiry := expiry (updateCheckTimeout e s)\<rparr>
    else updateCheckTimeout e s = s)"
  by (auto simp: updateCheckTimeout_def external_update_def Let_def split: option.splits)

lemma external_update_first_start:
  "external_update env0
     (state0\<lparr>disk := snd (writeCertificate env0 \<lparr>fullchain = ''CHAIN'', privkey = ''KEY''\<rparr>
                           (getCertificatePaths env0) Map.empty)\<rparr>)"
  unfolding write_first_start
  by (simp add: external_update_def state0_def file_exists_def store_eval)

theorem updateCheck_iff_external_update_witness:
  "certificateUpdated
     (updateCheckTimeout env0
        (state0\<lparr>disk := snd (writeCertificate env0 \<lparr>fullchain = ''CHAIN'', privkey = ''KEY''\<rparr>
                              (getCertificatePaths env0) Map.empty)\<rparr>)) =
     [getCertificatePaths env0] \<and>
   updateCheckTimeout env0 state0 = state0"
proof -
  have "\<not> external_update env0 state0"
    by (simp add: external_update_def state0_def file_exists_def)
  with updateCheck_iff_external_update [of env0 state0]
    updateCheck_iff_external_update [of env0
      "state0\<lparr>disk := snd (writeCertificate env0 \<lparr>fullchain = ''CHAIN'', privkey = ''KEY''\<rparr>
                            (getCertificatePaths env0) Map.empty)\<rparr>"]
    external_update_first_start
  show ?thesis by (simp add: state0_def)
qed

subsection \<open>The challenge handlers\<close>

text \<open>
  C8. The handler of the server variant always reports the request handled. When
  the URL equals that of a published challenge it answers 200 with content type
  application/octet-stream and the content of the first such challenge; otherwise
  it answers 404 with a body that names the URL asked for and then lists the URL
  of every published challenge, one per line.
\<close>

theorem handleHTTPRequest_answers:
  "fst (handleHTTPRequest pf chs u) \<and>
   (let r = snd (handleHTTPRequest pf chs u) in
    if \<exists>ch\<in>set chs. url ch = u
    then code r = 200 \<and> contentType r = Some ''application/octet-stream'' \<and>
         (\<exists>i<length chs. url (chs ! i) = u \<and> (\<forall>j<i. url (chs ! j) \<noteq> u) \<and>
                          body r = content (chs ! i))
    else code r = 404 \<and>
         body r = ''Resource not found. Url is '' @ urlString pf u @ '' but expected any of'' @
                  [CHR 0x0A] @ concat (map (\<lambda>ch. urlString pf (url ch) @ [CHR 0x0A]) chs) \<and>
         (\<forall>ch\<in>set chs. sublist (urlString pf (url ch) @ [CHR 0x0A]) (body r)))"
proof (cases "find (\<lambda>x. url x = u) chs")
  case None
  then have no: "\<not> (\<exists>ch\<in>set chs. url ch = u)"
    by (simp add: find_None_iff)
  have listed: "sublist (f ch) (pre @ concat (map f chs))"
    if "ch \<in> set chs" for ch pre and f :: "Challenge \<Rightarrow> string"
  proof -
    from that obtain xs ys where "chs = xs @ ch # ys"
      by (auto simp: in_set_conv_decomp)
    then have "pre @ concat (map f chs) = (pre @ concat (map f xs)) @ f ch @ concat (map f ys)"
      by simp
    then show ?thesis unfolding sublist_def by blast
  qed
  show ?thesis
    using None no
      listed [of _ "\<lambda>ch. urlString pf (url ch) @ [CHR 0x0A]"
        "''Resource not found. Url is '' @ urlString pf u @ '' but expected any of'' @ [CHR 0x0A]"]
    by (simp add: handleHTTPRequest_def Let_def)
next
  case (Some ch)
  then obtain i where i: "i < length chs" "url (chs ! i) = u" "ch = chs ! i"
    "\<forall>j<i. url (chs ! j) \<noteq> u"
    by (auto simp: find_Some_iff)
  then have ex: "\<exists>ch\<in>set chs. url ch = u"
    by (metis nth_mem)
  show ?thesis using Some i ex
    by (auto simp: handleHTTPRequest_def Let_def)
qed

theorem handleHTTPRequest_answers_witness:
  "snd (handleHTTPRequest env0
          [\<lparr>url = ''/.well-known/acme-challenge/a'', content = ''A.key''\<rparr>,
           \<lparr>url = ''/.well-known/acme-challenge/b'', content = ''B.key''\<rparr>]
          ''/.well-known/acme-challenge/b'') =
     \<lparr>code = 200, body = ''B.key'', contentType = Some ''application/octet-stream''\<rparr> \<and>
   code (snd (handleHTTPRequest env0
          [\<lparr>url = ''/.well-known/acme-challenge/a'', content = ''A.key''\<rparr>,
           \<lparr>url = ''/.well-known/acme-challenge/b'', content = ''B.key''\<rparr>]
          ''/index.html'')) = 404 \<and>
   sublist (''/.well-known/acme-challenge/b'' @ [CHR 0x0A])
     (body (snd (handleHTTPRequest env0
          [\<lparr>url = ''/.well-known/acme-challenge/a'', content = ''A.key''\<rparr>,
           \<lparr>url = ''/.well-known/acme-challenge/b'', content = ''B.key''\<rparr>]
          ''/index.html'')))"
proof -
  define chs where "chs = [\<lparr>url = ''/.well-known/acme-challenge/a'', content = ''A.key''\<rparr>,
        \<lparr>url = ''/.well-known/acme-challenge/b'', content = ''B.key''\<rparr>]"
  have no: "(\<exists>ch\<in>set chs. url ch = ''/index.html'') = False"
    by (simp add: chs_def)
  have b: "\<lparr>url = ''/.well-known/acme-challenge/b'', content = ''B.key''\<rparr> \<in> set chs"
    by (simp add: chs_def)
  from handleHTTPRequest_answers [of env0 chs "''/index.html''"]
  have "\<forall>ch\<in>set chs. sublist (urlString env0 (url ch) @ [CHR 0x0A])
          (body (snd (handleHTTPRequest env0 chs ''/index.html'')))"
    unfolding Let_def no if_False by (elim conjE)
  from bspec [OF this b]
  have "sublist (''/.well-known/acme-challenge/b'' @ [CHR 0x0A])
          (body (snd (handleHTTPRequest env0 chs ''/index.html'')))"
    by (simp add: env0_def)
  then show ?thesis
    unfolding chs_def by (simp add: handleHTTPRequest_def)
qed

text \<open>
  C9. For a type id other than "server", "files" and "manual",
  \<^verbatim>\<open>makeChallengeHandler\<close> throws a \<^verbatim>\<open>std::logic_error\<close> whose text ends in the type
  id and returns no handler. The challenge callback of a cycle makes the handler
  when it holds none, so on the first challenge it throws the same error in place
  of adding the challenge, also for the cycle that \<^verbatim>\<open>generateCertificate\<close> builds
  from a setting \<^verbatim>\<open>acme.challenge_handler_type\<close> with such a value.
\<close>

theorem makeChallengeHandler_invalid_type:
  assumes "typeId params \<noteq> ''server''" "typeId params \<noteq> ''files''"
    "typeId params \<noteq> ''manual''"
  shows "makeChallengeHandler params =
           Inl (LogicError (''Invalid ACME HTTP challenge handler type id: '' @ typeId params)) \<and>
         challengeCallback e (cyc\<lparr>challengeHandlerParams := params\<rparr>) domain location keyAuth
             (s\<lparr>challengeHandler := None\<rparr>) =
           Inl (LogicError (''Invalid ACME HTTP challenge handler type id: '' @ typeId params)) \<and>
         (acme_challenge_handler_type (settings e) = typeId params \<longrightarrow>
          challengeCallback e (newCycle e ps) domain location keyAuth
             (s\<lparr>challengeHandler := None\<rparr>) =
           Inl (LogicError (''Invalid ACME HTTP challenge handler type id: '' @ typeId params)))"
  using assms by (simp add: makeChallengeHandler_def challengeCallback_def newCycle_def Let_def)

theorem makeChallengeHandler_invalid_type_witness:
  "makeChallengeHandler \<lparr>typeId = ''dns'', domainDirs = Map.empty\<rparr> =
     Inl (LogicError ''Invalid ACME HTTP challenge handler type id: dns'') \<and>
   challengeCallback (env0\<lparr>settings := (settings env0)\<lparr>acme_challenge_handler_type := ''dns''\<rparr>\<rparr>)
     (newCycle (env0\<lparr>settings := (settings env0)\<lparr>acme_challenge_handler_type := ''dns''\<rparr>\<rparr>)
        (getCertificatePaths env0))
     ''example.org'' ''/.well-known/acme-challenge/t'' ''t.k'' (state0\<lparr>challengeHandler := None\<rparr>) =
     Inl (LogicError ''Invalid ACME HTTP challenge handler type id: dns'')"
  using makeChallengeHandler_invalid_type [of "\<lparr>typeId = ''dns'', domainDirs = Map.empty\<rparr>"
      "env0\<lparr>settings := (settings env0)\<lparr>acme_challenge_handler_type := ''dns''\<rparr>\<rparr>"
      "newCycle env0 (getCertificatePaths env0)"
      "''example.org''" "''/.well-known/acme-challenge/t''" "''t.k''" state0
      "getCertificatePaths env0"]
  by (simp add: env0_def)

subsection \<open>The account key\<close>

lemma createAccountKey_False:
  "createAccountKey pf pem p fs = (False, fs') \<Longrightarrow> fs' = fs \<and> \<not> openWritable pf p"
  by (auto simp: createAccountKey_def open_WriteOnly_def Let_def split: option.splits if_splits)

text \<open>
  C10. \<^verbatim>\<open>generateCertificate\<close> creates the account key only when no file is at the
  resolved account key path: when the file exists, no file is changed between the
  entry of \<^verbatim>\<open>generateCertificate\<close> and its call of \<^verbatim>\<open>acme_lw::init\<close>, so the account
  key keeps its contents; otherwise the files are those \<^verbatim>\<open>createAccountKey\<close> leaves.
\<close>

theorem existing_account_key_untouched:
  "disk (generateCertificate e ps s) =
     (if file_exists e (disk s) (accountKeyPath e) then disk s
      else snd (createAccountKey e (makePrivateKeyPem e) (accountKeyPath e) (disk s)))"
  by (auto simp: generateCertificate_def Let_def split: prod.splits option.splits
      dest: createAccountKey_False)

subsection \<open>Running the concrete setting\<close>

lemmas client_eval =
  init_def checkExpiry_def handleRenewal_def scheduleRenewalIn_def generateCertificate_def
  getCertificatePaths_def getAccountKeyPath_def accountKeyPath_def stable_partition_def
  file_exists_def createAccountKey_def open_WriteOnly_def file_write_def stored_def
  readCertificate_def readAll_def remainingTime_def secondsSinceEpoch_def
  duration_cast_seconds_def duration_cast_milliseconds_def hours_def
  json_in_def setError_def setError_data_def message_def unknown_status_def
  signed_divide_int_def int64_mod int32_mod Let_def

lemma env0_fields:
  "canonical env0 = (\<lambda>p. p)"
  "openWritable env0 = (\<lambda>p. True)" "openReadable env0 = (\<lambda>p. True)"
  "capacity env0 = (\<lambda>p. None)" "removable env0 = (\<lambda>p. True)" "mkpathOk env0 = (\<lambda>p. True)"
  "defaultPermissions env0 = {ReadOwner, WriteOwner, ReadGroup, ReadOther}"
  "filePath env0 = (\<lambda>d n. d @ ''/'' @ n)" "appLocalDataPath env0 = ''/data''"
  "urlOf env0 = (\<lambda>u. u)" "urlString env0 = (\<lambda>u. u)" "toAce env0 = (\<lambda>d. d)"
  "now env0 = 0" "ticksPerMs env0 = 1000000" "makePrivateKeyPem env0 = ''ACCOUNT KEY''"
  "getExpiry env0 = (\<lambda>c. if fullchain c = [] then Inl (AcmeException ''no certificate'')
                        else Inr (int (length (fullchain c)) * 86400000000000))"
  "getExpiryOrError env0 = (\<lambda>c. if fullchain c = [] then None
                               else Some (int (length (fullchain c)) * 86400000000000))"
  "debugEnabled env0 = True"
  "settings env0 =
        \<lparr>acme_enable_client = True, acme_account_key_path = [],
         acme_certificate_directory = [],
         acme_certificate_filename = ''fullchain.pem'',
         acme_certificate_key_filename = ''privkey.pem'',
         acme_certificate_authority_filename = ''ca.pem'',
         acme_certificate_domains = [(''example.org'', [])],
         acme_challenge_handler_type = ''manual'',
         acme_directory_endpoint = ''https://ca.example/directory'',
         acme_eab_kid = [], acme_eab_mac = []\<rparr>"
  by (simp_all add: env0_def)

lemmas run_eval = client_eval env0_fields state0_def state1_def installed_def

lemma paths0: "getCertificatePaths env0 =
    \<lparr>cert = ''/data/fullchain.pem'', key = ''/data/privkey.pem'', trustedAuthorities = ''/data/ca.pem''\<rparr>"
  by (simp add: getCertificatePaths_def env0_fields)


subsection \<open>Renewal\<close>






subsection \<open>The decision of init\<close>

text \<open>
  C4, as the code has it. \<^verbatim>\<open>init\<close> resets the status document. When
  \<^verbatim>\<open>acme.enable_client\<close> is false it returns there, having changed nothing else.
  When it is true, \<^verbatim>\<open>init\<close> branches on the two files in three ways: both present,
  it is \<^verbatim>\<open>checkExpiry(paths)\<close>; both absent, it is \<^verbatim>\<open>generateCertificate(paths)\<close>;
  exactly one present, it sets \<^verbatim>\<open>certificate.status\<close> to "error" and
  \<^verbatim>\<open>certificate.error\<close> to type "missing" with the absent path as \<^verbatim>\<open>missing\<close> and the
  existing path as \<^verbatim>\<open>present\<close>, and changes nothing else: no renewal is scheduled
  and no cycle is started.
\<close>

theorem init_branches:
  "let ps = getCertificatePaths e;
       s0 = s\<lparr>status := unknown_status\<rparr>;
       hasCert = file_exists e (disk s) (cert ps);
       hasKey = file_exists e (disk s) (key ps)
   in if \<not> acme_enable_client (settings e) then init e s = s0
      else if hasCert \<and> hasKey then init e s = checkExpiry e ps s0
      else if \<not> hasCert \<and> \<not> hasKey then init e s = generateCertificate e ps s0
      else init e s =
                   s\<lparr>status :=
                       JObject [(''directory'', JObject [(''status'', JString ''unknown'')]),
                                (''account'', JObject [(''status'', JString ''unknown'')]),
                                (''certificate'',
                                 JObject [(''status'', JString ''error''),
                                          (''error'',
                                           JObject [(''type'', JString ''missing''),
                                                    (''data'',
                                                     JObject [(''missing'', JString (if hasCert then key ps else cert ps)),
                                                              (''present'', JString (if hasCert then cert ps else key ps))])])])]\<rparr> \<and>
                 renewalTimer (init e s) = renewalTimer s \<and>
                 acmeRequests (init e s) = acmeRequests s"
  by (simp add: init_def Let_def stable_partition_def unknown_status_def json_in_def
      setError_data_def setError_def)

theorem init_branches_witness:
  "init env0 (state0\<lparr>disk := installed\<rparr>) =
     checkExpiry env0 (getCertificatePaths env0) (state0\<lparr>disk := installed, status := unknown_status\<rparr>) \<and>
   init env0 state0 = generateCertificate env0 (getCertificatePaths env0) state1 \<and>
   json_at (json_at (json_at (status (init env0
       (state0\<lparr>disk := [''/data/fullchain.pem'' \<mapsto> \<lparr>bytes = ''CHAIN'', permissions = {}\<rparr>]\<rparr>)))
       ''certificate'') ''error'') ''data'' =
     JObject [(''missing'', JString ''/data/privkey.pem''),
              (''present'', JString ''/data/fullchain.pem'')] \<and>
   renewalTimer (init env0
       (state0\<lparr>disk := [''/data/fullchain.pem'' \<mapsto> \<lparr>bytes = ''CHAIN'', permissions = {}\<rparr>]\<rparr>)) = None \<and>
   acmeRequests (init env0
       (state0\<lparr>disk := [''/data/fullchain.pem'' \<mapsto> \<lparr>bytes = ''CHAIN'', permissions = {}\<rparr>]\<rparr>)) = [] \<and>
   init (env0\<lparr>settings := (settings env0)\<lparr>acme_enable_client := False\<rparr>\<rparr>)
     (state0\<lparr>disk := installed\<rparr>) = state0\<lparr>disk := installed, status := unknown_status\<rparr>"
proof -
  have en: "acme_enable_client (settings env0)"
    "\<not> acme_enable_client
         (settings (env0\<lparr>settings := (settings env0)\<lparr>acme_enable_client := False\<rparr>\<rparr>))"
    by (simp_all add: env0_fields)
  have cn: "canonical env0 = (\<lambda>p. p)"
    by (simp add: env0_fields)
  from init_branches [of env0 "state0\<lparr>disk := installed\<rparr>"]
    init_branches [of env0 state0]
    init_branches [of env0
      "state0\<lparr>disk := [''/data/fullchain.pem'' \<mapsto> \<lparr>bytes = ''CHAIN'', permissions = {}\<rparr>]\<rparr>"]
    init_branches [of "env0\<lparr>settings := (settings env0)\<lparr>acme_enable_client := False\<rparr>\<rparr>"
      "state0\<lparr>disk := installed\<rparr>"]
  show ?thesis
    by (simp add: Let_def en cn paths0 file_exists_def installed_def state0_def state1_def)
qed

text \<open>
  C4 as stated fails when the client is disabled by configuration: with both files
  in place \<^verbatim>\<open>init\<close> returns after the reset and does not call \<^verbatim>\<open>checkExpiry\<close>, which
  would have armed the renewal timer.
\<close>

theorem init_disabled_checks_nothing:
  "\<not> acme_enable_client
       (settings (env0\<lparr>settings := (settings env0)\<lparr>acme_enable_client := False\<rparr>\<rparr>)) \<and>
   file_exists env0 installed (cert (getCertificatePaths env0)) \<and>
   file_exists env0 installed (key (getCertificatePaths env0)) \<and>
   renewalTimer (init (env0\<lparr>settings := (settings env0)\<lparr>acme_enable_client := False\<rparr>\<rparr>)
                   (state0\<lparr>disk := installed\<rparr>)) = None \<and>
   renewalTimer (checkExpiry (env0\<lparr>settings := (settings env0)\<lparr>acme_enable_client := False\<rparr>\<rparr>)
                   (getCertificatePaths env0)
                   (state0\<lparr>disk := installed, status := unknown_status\<rparr>)) = Some 288000000 \<and>
   init (env0\<lparr>settings := (settings env0)\<lparr>acme_enable_client := False\<rparr>\<rparr>)
     (state0\<lparr>disk := installed\<rparr>) \<noteq>
   checkExpiry (env0\<lparr>settings := (settings env0)\<lparr>acme_enable_client := False\<rparr>\<rparr>)
     (getCertificatePaths env0) (state0\<lparr>disk := installed, status := unknown_status\<rparr>)"
  by (simp add: run_eval)

subsection \<open>The failing steps of a cycle\<close>




lemma resetChallengeHandler_status [simp]: "status (resetChallengeHandler e s) = status s"
  by (simp add: resetChallengeHandler_def split: option.splits)





subsection \<open>The update request\<close>

lemma update_never_conflicts:
  assumes "status_shaped (status s)"
  shows "handleAuthenticatedHTTPRequest e PostOperation ''/acme/update'' requestContent s =
           (True, Some \<lparr>code = 200, body = [], contentType = None\<rparr>, init e s)"
proof -
  have "j \<noteq> JString x" if "is_object j" for j x
    using that by (cases j) simp_all
  with assms show ?thesis
    by (simp add: handleAuthenticatedHTTPRequest_def status_shaped_def Let_def)
qed

lemma first_start:
  "DomainServerAcmeClient env0 0 Map.empty =
     \<lparr>status = JObject [(''directory'', JObject [(''status'', JString ''pending'')]),
                        (''account'', JObject [(''status'', JString ''unknown'')]),
                        (''certificate'', JObject [(''status'', JString ''unknown'')])],
      expiry = 0, renewalTimer = None, challengeHandler = None, selfCheckUrls = [],
      disk = [''/data/acme_account_key.pem'' \<mapsto>
                \<lparr>bytes = ''ACCOUNT KEY'', permissions = {ReadOwner, WriteOwner}\<rparr>],
      certificateUpdated = [],
      acmeRequests = [AcmeInit (newCycle env0 (getCertificatePaths env0)) ''ACCOUNT KEY''
                        ''https://ca.example/directory'' [] []]\<rparr>"
  by (simp add: DomainServerAcmeClient_def run_eval)

text \<open>
  C1 at a state in which the directory stage is pending (a first start, the answer
  of the certificate authority not yet in): the POST request to \<^verbatim>\<open>/acme/update\<close>
  is answered 200, not 409, and \<^verbatim>\<open>init\<close> starts a second cycle beside the first.
  The handler compares the stage objects \<^verbatim>\<open>status["directory"]\<close>,
  \<^verbatim>\<open>status["account"]\<close> and \<^verbatim>\<open>status["certificate"]\<close> with the string "pending",
  not their \<^verbatim>\<open>status\<close> members, and an object never equals a string
  (\<open>update_never_conflicts\<close>).
\<close>

theorem update_while_pending:
  "json_at (json_at (status (DomainServerAcmeClient env0 0 Map.empty)) ''directory'') ''status'' =
     JString ''pending'' \<and>
   fst (snd (handleAuthenticatedHTTPRequest env0 PostOperation ''/acme/update'' []
               (DomainServerAcmeClient env0 0 Map.empty))) =
     Some \<lparr>code = 200, body = [], contentType = None\<rparr> \<and>
   length (acmeRequests (snd (snd (handleAuthenticatedHTTPRequest env0 PostOperation
               ''/acme/update'' [] (DomainServerAcmeClient env0 0 Map.empty))))) = 2"
  unfolding first_start
  by (simp add: handleAuthenticatedHTTPRequest_def run_eval)

subsection \<open>The shape of the status document is kept\<close>

text \<open>
  With \<open>shaped_init\<close>: every state the client reaches from its constructor has a
  status document of the shape the theorems above assume.
\<close>

lemma shaped_callbacks:
  assumes "status_shaped (status s)"
  shows "status_shaped (status (directoryCallback e cyc s))"
    and "status_shaped (status (AccountCallback_client e cyc s))"
    and "status_shaped (status (selfCheckFinished e cyc s))"
    and "status_shaped (status (updateCheckTimeout e s))"
    and "status_shaped (status (resetChallengeHandler e s))"
  using assms
  by (simp_all add: directoryCallback_def AccountCallback_client_def selfCheckFinished_def
      updateCheckTimeout_def Let_def status_shaped_in is_object_set split: option.splits)

lemma shaped_recorded:
  assumes "status_shaped (status s)"
    and "terminalContinuation e c ps b s1 = Inr s'"
    and "status s1 = json_in stage (setError_data ty d) (status s)"
  shows "status_shaped (status s')"
proof -
  from assms(1,3) have "status_shaped (status s1)"
    by (simp add: status_shaped_in is_object_setError_data)
  then show ?thesis
    using assms(2) by (rule shaped_terminalContinuation)
qed

lemma shaped_failing_callbacks:
  assumes "status_shaped (status s)"
  shows "AccountCallback_error e cyc what s = Inr s' \<Longrightarrow> status_shaped (status s')"
    and "AccountCallback_client_error e cyc what s = Inr s' \<Longrightarrow> status_shaped (status s')"
    and "OrderCallback_error e cyc what s = Inr s' \<Longrightarrow> status_shaped (status s')"
    and "CertificateCallback_error e cyc what s = Inr s' \<Longrightarrow> status_shaped (status s')"
  unfolding AccountCallback_error_def AccountCallback_client_error_def
    OrderCallback_error_def CertificateCallback_error_def Let_def
  by (erule shaped_recorded [OF assms], simp)+

lemma shaped_challenges:
  assumes "status_shaped (status s)"
  shows "OrderCallback_order e cyc s = Inr s' \<Longrightarrow> status_shaped (status s')"
    and "challengeCallback e cyc domain location keyAuth s = Inr s' \<Longrightarrow>
         status_shaped (status s')"
  using assms
  by (auto simp: OrderCallback_order_def challengeCallback_def
      split: option.splits sum.splits prod.splits)

lemma shaped_CertificateCallback_cert:
  assumes "status_shaped (status s)" and "CertificateCallback_cert e cyc c s = Inr s'"
  shows "status_shaped (status s')"
proof -
  obtain ok fs' where w:
    "writeCertificate e c (certPaths cyc) (disk (resetChallengeHandler e s)) = (ok, fs')"
    by (cases "writeCertificate e c (certPaths cyc) (disk (resetChallengeHandler e s))")
  let ?s2 = "resetChallengeHandler e s\<lparr>disk := fs'\<rparr>"
  let ?s3 = "if \<not> ok
             then ?s2\<lparr>status := json_in ''certificate''
                                   (setError_data ''write''
                                      (message ''Failed to write certificate files.''))
                                   (status ?s2)\<rparr>
             else ?s2"
  from assms(2) w have t: "terminalContinuation e c (certPaths cyc) ok ?s3 = Inr s'"
    by (simp add: CertificateCallback_cert_def Let_def split: sum.splits if_splits)
  from assms(1) have "status_shaped (status ?s3)"
    by (simp add: status_shaped_in is_object_setError_data)
  then show ?thesis
    using t by (rule shaped_terminalContinuation)
qed

lemma shaped_handleAuthenticatedHTTPRequest:
  assumes "status_shaped (status s)"
  shows "status_shaped
           (status (snd (snd (handleAuthenticatedHTTPRequest e op' urlPath requestContent s))))"
proof -
  have "status (snd (snd (handleAuthenticatedHTTPRequest e op' urlPath requestContent s))) =
          status s \<or>
        snd (snd (handleAuthenticatedHTTPRequest e op' urlPath requestContent s)) = init e s"
    unfolding handleAuthenticatedHTTPRequest_def Let_def
    by (cases op') (simp_all split: option.splits prod.splits)
  with assms show ?thesis
    by (auto simp: shaped_init)
qed

end
